theory Spec2Isabelle
  imports Main "HOL-Library.Word" "HOL-Library.Sublist"
begin

section \<open>Data model of the task executor (TaskBase.cpp)\<close>

text \<open>
  Identifiers (\<open>MaaId\<close>, \<open>MaaTaskId\<close>, \<open>MaaNodeId\<close>, \<open>MaaRecoId\<close>) are \<open>int64_t\<close>
  in the source (\<open>set_node_detail\<close> takes \<open>int64_t node_id\<close>): 64-bit words, read
  as two's complement with \<open>sint\<close>, on which \<open>+\<close> wraps around.
\<close>

type_synonym MaaId = "64 word"

text \<open>\<open>cv::Rect\<close>: x, y, width, height. The executor only passes it on.\<close>

type_synonym Rect = "int \<times> int \<times> int \<times> int"

text \<open>
  Modelled from the spec: \<open>cv::Mat\<close> (OpenCV, not part of the sources). The executor
  only asks whether the frame is empty and hands the frame to the recognizer; a frame
  is its pixel data, and it is empty when there is none.
\<close>

datatype Mat = Mat (pixels: "nat list")

definition Mat_empty :: "Mat \<Rightarrow> bool" where
  "Mat_empty img = (pixels img = [])"

text \<open>
  Modelled from the spec: \<open>PipelineData\<close> (declared in the resource headers, not part of
  the sources). The executor reads \<open>enabled\<close> and \<open>focus\<close>; the recognition and action
  configuration is opaque to it.
\<close>

record PipelineData =
  pd_name :: string
  enabled :: bool
  focus :: bool
  opaque_config :: string

text \<open>
  Modelled from the spec: \<open>RecoResult\<close> (declared in Component/Recognizer.h, not part
  of the sources). \<open>box\<close> is the optional matched region, the discriminator of a match.
  \<open>RecoResult_empty\<close> is the value-initialised \<open>{}\<close> the source returns: the invalid
  id 0, no name, no region.
\<close>

record RecoResult =
  reco_id :: MaaId
  reco_name :: string
  box :: "Rect option"

definition RecoResult_empty :: RecoResult where
  "RecoResult_empty = \<lparr>reco_id = 0, reco_name = [], box = None\<rparr>"

text \<open>
  Modelled from the spec: \<open>NodeDetail\<close> and \<open>TaskDetail\<close> (declared in headers that
  are not part of the sources). \<open>NodeDetail\<close> has the four fields \<open>run_action\<close>
  initialises; \<open>NodeDetail_empty\<close> is the value-initialised \<open>{}\<close> it returns at its
  guards: the invalid id 0, no name, not completed. \<open>TaskDetail\<close> has the two fields
  \<open>set_node_detail\<close> and \<open>init\<close> use; \<open>TaskDetail { .entry = entry_ }\<close> leaves
  the list of node ids empty.
\<close>

record NodeDetail =
  node_id :: MaaId
  node_name :: string
  node_reco_id :: MaaId
  completed :: bool

definition NodeDetail_empty :: NodeDetail where
  "NodeDetail_empty = \<lparr>node_id = 0, node_name = [], node_reco_id = 0, completed = False\<rparr>"

record TaskDetail =
  entry :: string
  node_ids :: "MaaId list"

text \<open>
  Modelled from the spec: the notification kinds of MaaFramework/MaaMsg.h (not part of
  the sources), the nine \<open>MaaMsg_Task_*\<close> macros the executor uses, as distinct values.
\<close>

datatype MaaMsg =
    MaaMsg_Task_NextList_Starting
  | MaaMsg_Task_NextList_Succeeded
  | MaaMsg_Task_NextList_Failed
  | MaaMsg_Task_Recognition_Starting
  | MaaMsg_Task_Recognition_Succeeded
  | MaaMsg_Task_Recognition_Failed
  | MaaMsg_Task_Action_Starting
  | MaaMsg_Task_Action_Succeeded
  | MaaMsg_Task_Action_Failed

text \<open>The \<open>json::value\<close> details of a notification: an object of named values.\<close>

datatype json_value = JInt MaaId | JString string | JArray "json_value list"

type_synonym json_object = "(string \<times> json_value) list"

type_synonym NotificationEvent = "MaaMsg \<times> json_object"

text \<open>
  Modelled from the spec: the Runtime Cache (\<open>tasker_->runtime_cache()\<close>, not part of
  the sources): three keyed stores, each independently addressable; a setter overwrites
  the entry of its key and leaves every other entry and store alone.
\<close>

record RuntimeCache =
  node_details :: "MaaId \<rightharpoonup> NodeDetail"
  latest_nodes :: "string \<rightharpoonup> MaaId"
  task_details :: "MaaId \<rightharpoonup> TaskDetail"

definition cache_set_node_detail :: "MaaId \<Rightarrow> NodeDetail \<Rightarrow> RuntimeCache \<Rightarrow> RuntimeCache" where
  "cache_set_node_detail uid detail cache =
     cache\<lparr>node_details := (node_details cache)(uid \<mapsto> detail)\<rparr>"

definition cache_get_node_detail :: "MaaId \<Rightarrow> RuntimeCache \<Rightarrow> NodeDetail option" where
  "cache_get_node_detail uid cache = node_details cache uid"

definition cache_set_latest_node :: "string \<Rightarrow> MaaId \<Rightarrow> RuntimeCache \<Rightarrow> RuntimeCache" where
  "cache_set_latest_node nm uid cache =
     cache\<lparr>latest_nodes := (latest_nodes cache)(nm \<mapsto> uid)\<rparr>"

definition cache_get_latest_node :: "string \<Rightarrow> RuntimeCache \<Rightarrow> MaaId option" where
  "cache_get_latest_node nm cache = latest_nodes cache nm"

definition cache_set_task_detail :: "MaaId \<Rightarrow> TaskDetail \<Rightarrow> RuntimeCache \<Rightarrow> RuntimeCache" where
  "cache_set_task_detail uid detail cache =
     cache\<lparr>task_details := (task_details cache)(uid \<mapsto> detail)\<rparr>"

definition cache_get_task_detail :: "MaaId \<Rightarrow> RuntimeCache \<Rightarrow> TaskDetail option" where
  "cache_get_task_detail uid cache = task_details cache uid"

text \<open>
  Modelled from the spec: the \<open>Tasker\<close> (the owning runtime, not part of the sources),
  as far as the executor uses it: it owns the Runtime Cache and is the event sink;
  \<open>notified\<close> is the sequence of events it has received, oldest first.
\<close>

record Tasker =
  runtime_cache :: RuntimeCache
  notified :: "NotificationEvent list"

definition Tasker_notify :: "MaaMsg \<Rightarrow> json_object \<Rightarrow> Tasker \<Rightarrow> Tasker" where
  "Tasker_notify msg detail t = t\<lparr>notified := notified t @ [(msg, detail)]\<rparr>"

text \<open>
  Modelled from the spec: the Pipeline Context, a total lookup of node data by name.
\<close>

datatype Context = Context (get_pipeline_data: "string \<Rightarrow> PipelineData")

text \<open>
  A \<open>Tasker*\<close> is an address into the store of runtime objects; \<open>nullptr\<close> is \<open>None\<close>.
  The members of \<open>TaskBase\<close> follow the constructor's initialiser list, the
  trailing underscore of each name written as a prime; \<open>task_id'\<close> is the member
  \<open>task_id()\<close> returns.
\<close>

type_synonym Tasker_ptr = nat

record TaskBase =
  tasker' :: "Tasker_ptr option"
  entry' :: string
  cur_task' :: string
  task_id' :: MaaId
  context' :: "Context option"

text \<open>
  Everything outside the executor object that its calls read or change: the static
  counter \<open>s_global_node_id\<close>, the process-wide debug flag of \<open>GlobalOptionMgr\<close>, the
  runtime objects, the lines written with \<open>LogError\<close>, and the calls the two adapters
  have received, oldest first. The trace, debug and info lines (\<open>LogFunc\<close>,
  \<open>LogDebug\<close>, \<open>LogInfo\<close>) are left out: nothing reads them.
\<close>

record World =
  s_global_node_id :: MaaId
  global_debug_mode :: bool
  taskers :: "Tasker_ptr \<Rightarrow> Tasker"
  error_log :: "string list"
  recognizer_calls :: "(Mat \<times> PipelineData) list"
  actuator_calls :: "(Rect \<times> MaaId \<times> PipelineData) list"

text \<open>
  Modelled from the spec: the two adapters (Component/Recognizer.h and
  Component/Actuator.h, not part of the sources) are parameters. A recognizer is built
  from the tasker, the context and the frame and maps node data to a result, pure in the
  inputs given; an actuator is built from the tasker and the context and maps region,
  recognition id and node data to the completion flag.
\<close>

type_synonym Recognizer =
  "Tasker_ptr option \<Rightarrow> Context \<Rightarrow> Mat \<Rightarrow> PipelineData \<Rightarrow> RecoResult"

type_synonym Actuator =
  "Tasker_ptr option \<Rightarrow> Context \<Rightarrow> Rect \<Rightarrow> MaaId \<Rightarrow> PipelineData \<Rightarrow> bool"

section \<open>The operations of TaskBase\<close>

text \<open>
  Each operation takes the world and returns it updated, next to its result.
  \<open>generate_node_id\<close> is \<open>++s_global_node_id\<close>: the counter is incremented and the
  new value returned. In \<open>set_node_detail\<close> the cache is a reference into the tasker, so
  its two writes are in place before \<open>set_task_detail\<close> reads the tasker again.
\<close>

definition LogError :: "string \<Rightarrow> World \<Rightarrow> World" where
  "LogError line w = w\<lparr>error_log := error_log w @ [line]\<rparr>"

definition debug_mode :: "World \<Rightarrow> bool" where
  "debug_mode w = global_debug_mode w"

definition notify :: "TaskBase \<Rightarrow> MaaMsg \<Rightarrow> json_object \<Rightarrow> World \<Rightarrow> World" where
  "notify self msg detail w =
     (case tasker' self of
        None \<Rightarrow> w
      | Some p \<Rightarrow> w\<lparr>taskers := (taskers w)(p := Tasker_notify msg detail (taskers w p))\<rparr>)"

definition generate_node_id :: "World \<Rightarrow> MaaId \<times> World" where
  "generate_node_id w =
     (s_global_node_id w + 1, w\<lparr>s_global_node_id := s_global_node_id w + 1\<rparr>)"

definition set_task_detail :: "TaskBase \<Rightarrow> TaskDetail \<Rightarrow> World \<Rightarrow> World" where
  "set_task_detail self detail w =
     (case tasker' self of
        None \<Rightarrow> LogError ''tasker is null'' w
      | Some p \<Rightarrow>
          w\<lparr>taskers := (taskers w)(p := (taskers w p)
               \<lparr>runtime_cache :=
                  cache_set_task_detail (task_id' self) detail (runtime_cache (taskers w p))\<rparr>)\<rparr>)"

definition set_node_detail :: "TaskBase \<Rightarrow> MaaId \<Rightarrow> NodeDetail \<Rightarrow> World \<Rightarrow> World" where
  "set_node_detail self uid detail w =
     (case tasker' self of
        None \<Rightarrow> LogError ''tasker is null'' w
      | Some p \<Rightarrow>
          (let cache = cache_set_latest_node (node_name detail) uid
                         (cache_set_node_detail uid detail (runtime_cache (taskers w p)));
               task_detail =
                 (case cache_get_task_detail (task_id' self) cache of
                    Some d \<Rightarrow> d
                  | None \<Rightarrow> \<lparr>entry = entry' self, node_ids = []\<rparr>);
               task_detail = task_detail\<lparr>node_ids := node_ids task_detail @ [uid]\<rparr>
           in set_task_detail self task_detail
                (w\<lparr>taskers := (taskers w)(p := (taskers w p)\<lparr>runtime_cache := cache\<rparr>)\<rparr>)))"

definition init :: "TaskBase \<Rightarrow> World \<Rightarrow> World" where
  "init self w = set_task_detail self \<lparr>entry = entry' self, node_ids = []\<rparr> w"

definition reco_list_cb_detail :: "TaskBase \<Rightarrow> string list \<Rightarrow> json_object" where
  "reco_list_cb_detail self list =
     [(''task_id'', JInt (task_id' self)),
      (''name'', JString (cur_task' self)),
      (''list'', JArray (map JString list))]"

definition reco_cb_detail :: "TaskBase \<Rightarrow> MaaId \<Rightarrow> string \<Rightarrow> json_object" where
  "reco_cb_detail self rid nm =
     [(''task_id'', JInt (task_id' self)), (''reco_id'', JInt rid), (''name'', JString nm)]"

definition action_cb_detail :: "TaskBase \<Rightarrow> MaaId \<Rightarrow> string \<Rightarrow> json_object" where
  "action_cb_detail self nid nm =
     [(''task_id'', JInt (task_id' self)), (''node_id'', JInt nid), (''name'', JString nm)]"

text \<open>
  The \<open>for\<close> loop of \<open>run_recognition\<close> over the rest of the candidate list, with the
  code after the loop as the case of the exhausted list. \<open>list_detail\<close> is the detail
  object built before the loop, \<open>current_focus\<close> the flag read before it.
\<close>

fun run_recognition_loop ::
  "Recognizer \<Rightarrow> TaskBase \<Rightarrow> Context \<Rightarrow> Mat \<Rightarrow> bool \<Rightarrow> json_object \<Rightarrow> string list \<Rightarrow> World
     \<Rightarrow> RecoResult \<times> World" where
  "run_recognition_loop recognize self ctx img current_focus list_detail [] w =
     (RecoResult_empty,
      if debug_mode w \<or> current_focus
      then notify self MaaMsg_Task_NextList_Failed list_detail w else w)"
| "run_recognition_loop recognize self ctx img current_focus list_detail (nm # rest) w =
     (let pipeline_data = get_pipeline_data ctx nm in
      if \<not> enabled pipeline_data
      then run_recognition_loop recognize self ctx img current_focus list_detail rest w
      else
        let w1 = (if debug_mode w \<or> focus pipeline_data
                  then notify self MaaMsg_Task_Recognition_Starting (reco_cb_detail self 0 nm) w
                  else w);
            result = recognize (tasker' self) ctx img pipeline_data;
            w2 = w1\<lparr>recognizer_calls := recognizer_calls w1 @ [(img, pipeline_data)]\<rparr>;
            w3 = (if debug_mode w2 \<or> focus pipeline_data
                  then notify self
                         (if box result \<noteq> None then MaaMsg_Task_Recognition_Succeeded
                          else MaaMsg_Task_Recognition_Failed)
                         (reco_cb_detail self (reco_id result) nm) w2
                  else w2)
        in if box result = None
           then run_recognition_loop recognize self ctx img current_focus list_detail rest w3
           else (result,
                 if debug_mode w3 \<or> current_focus
                 then notify self MaaMsg_Task_NextList_Succeeded list_detail w3 else w3))"

definition run_recognition ::
  "Recognizer \<Rightarrow> TaskBase \<Rightarrow> Mat \<Rightarrow> string list \<Rightarrow> World \<Rightarrow> RecoResult \<times> World" where
  "run_recognition recognize self img list w =
     (case context' self of
        None \<Rightarrow> (RecoResult_empty, LogError ''context is null'' w)
      | Some ctx \<Rightarrow>
          if Mat_empty img then (RecoResult_empty, LogError ''Image is empty'' w)
          else
            let current_focus = focus (get_pipeline_data ctx (cur_task' self));
                list_detail = reco_list_cb_detail self list;
                w1 = (if debug_mode w \<or> current_focus
                      then notify self MaaMsg_Task_NextList_Starting list_detail w else w)
            in run_recognition_loop recognize self ctx img current_focus list_detail list w1)"

definition run_action :: "Actuator \<Rightarrow> TaskBase \<Rightarrow> RecoResult \<Rightarrow> World \<Rightarrow> NodeDetail \<times> World" where
  "run_action actuate self reco w =
     (case context' self of
        None \<Rightarrow> (NodeDetail_empty, LogError ''context is null'' w)
      | Some ctx \<Rightarrow>
          (case box reco of
             None \<Rightarrow> (NodeDetail_empty, LogError ''reco box is nullopt, can NOT run'' w)
           | Some region \<Rightarrow>
               let pipeline_data = get_pipeline_data ctx (reco_name reco);
                   w1 = (if debug_mode w \<or> focus pipeline_data
                         then notify self MaaMsg_Task_Action_Starting
                                (action_cb_detail self 0 (reco_name reco)) w
                         else w);
                   ret = actuate (tasker' self) ctx region (reco_id reco) pipeline_data;
                   w2 = w1\<lparr>actuator_calls :=
                             actuator_calls w1 @ [(region, reco_id reco, pipeline_data)]\<rparr>;
                   (uid, w3) = generate_node_id w2;
                   result = \<lparr>node_id = uid, node_name = reco_name reco,
                             node_reco_id = reco_id reco, completed = ret\<rparr>;
                   w4 = set_node_detail self (node_id result) result w3;
                   w5 = (if debug_mode w4 \<or> focus pipeline_data
                         then notify self
                                (if completed result then MaaMsg_Task_Action_Succeeded
                                 else MaaMsg_Task_Action_Failed)
                                (action_cb_detail self (node_id result) (reco_name reco)) w4
                         else w4)
               in (result, w5)))"

text \<open>
  A caller's sequence of \<open>run_action\<close> calls, possibly on several executors, one
  after the other on the shared world; the records come back in call order.
\<close>

fun run_actions ::
  "Actuator \<Rightarrow> (TaskBase \<times> RecoResult) list \<Rightarrow> World \<Rightarrow> NodeDetail list \<times> World" where
  "run_actions actuate [] w = ([], w)"
| "run_actions actuate ((self, reco) # rest) w =
     (let (detail, w1) = run_action actuate self reco w;
          (details, w2) = run_actions actuate rest w1
      in (detail # details, w2))"

section \<open>The specification's words\<close>

text \<open>
  A candidate is an enabled match when its node is enabled and the recognizer's result
  for it carries a region. The evaluated candidates of a list are the enabled ones
  before the first enabled match, in list order, followed by that match if there is one.
\<close>

definition enabled_match :: "Recognizer \<Rightarrow> TaskBase \<Rightarrow> Context \<Rightarrow> Mat \<Rightarrow> string \<Rightarrow> bool" where
  "enabled_match recognize self ctx img nm =
     (enabled (get_pipeline_data ctx nm) \<and>
      box (recognize (tasker' self) ctx img (get_pipeline_data ctx nm)) \<noteq> None)"

definition evaluated_candidates ::
  "Recognizer \<Rightarrow> TaskBase \<Rightarrow> Context \<Rightarrow> Mat \<Rightarrow> string list \<Rightarrow> string list" where
  "evaluated_candidates recognize self ctx img list =
     filter (\<lambda>nm. enabled (get_pipeline_data ctx nm))
       (takeWhile (\<lambda>nm. \<not> enabled_match recognize self ctx img nm) list) @
     (case find (enabled_match recognize self ctx img) list of None \<Rightarrow> [] | Some nm \<Rightarrow> [nm])"

text \<open>
  The events of the specification's state machine for one \<open>run_recognition\<close>:
  \<open>ListStarting?\<close>, then per evaluated candidate \<open>Starting\<close> followed by \<open>Succeeded\<close>
  or \<open>Failed\<close>, then \<open>ListSucceeded\<close> or \<open>ListFailed\<close>. \<open>dbg\<close> is the global debug
  mode. The list-level events depend on the focus flag of the current node, the
  per-candidate events on the candidate's own.
\<close>

definition list_starting_events ::
  "TaskBase \<Rightarrow> Context \<Rightarrow> string list \<Rightarrow> bool \<Rightarrow> NotificationEvent list" where
  "list_starting_events self ctx list dbg =
     (if dbg \<or> focus (get_pipeline_data ctx (cur_task' self))
      then [(MaaMsg_Task_NextList_Starting, reco_list_cb_detail self list)] else [])"

definition recognition_events ::
  "Recognizer \<Rightarrow> TaskBase \<Rightarrow> Context \<Rightarrow> Mat \<Rightarrow> bool \<Rightarrow> string \<Rightarrow> NotificationEvent list" where
  "recognition_events recognize self ctx img dbg nm =
     (let pipeline_data = get_pipeline_data ctx nm;
          result = recognize (tasker' self) ctx img pipeline_data
      in if dbg \<or> focus pipeline_data
         then [(MaaMsg_Task_Recognition_Starting, reco_cb_detail self 0 nm),
               (if box result \<noteq> None then MaaMsg_Task_Recognition_Succeeded
                else MaaMsg_Task_Recognition_Failed,
                reco_cb_detail self (reco_id result) nm)]
         else [])"

definition list_final_events ::
  "Recognizer \<Rightarrow> TaskBase \<Rightarrow> Context \<Rightarrow> Mat \<Rightarrow> string list \<Rightarrow> bool \<Rightarrow> NotificationEvent list" where
  "list_final_events recognize self ctx img list dbg =
     (if dbg \<or> focus (get_pipeline_data ctx (cur_task' self))
      then [(if find (enabled_match recognize self ctx img) list = None
             then MaaMsg_Task_NextList_Failed else MaaMsg_Task_NextList_Succeeded,
             reco_list_cb_detail self list)]
      else [])"

definition run_recognition_events ::
  "Recognizer \<Rightarrow> TaskBase \<Rightarrow> Context \<Rightarrow> Mat \<Rightarrow> string list \<Rightarrow> bool \<Rightarrow> NotificationEvent list" where
  "run_recognition_events recognize self ctx img list dbg =
     list_starting_events self ctx list dbg @
     concat (map (recognition_events recognize self ctx img dbg)
               (evaluated_candidates recognize self ctx img list)) @
     list_final_events recognize self ctx img list dbg"

text \<open>The events of one \<open>run_action\<close> that allocates the node id \<open>uid\<close>.\<close>

definition action_events ::
  "Actuator \<Rightarrow> TaskBase \<Rightarrow> Context \<Rightarrow> RecoResult \<Rightarrow> Rect \<Rightarrow> MaaId \<Rightarrow> bool \<Rightarrow> NotificationEvent list" where
  "action_events actuate self ctx reco region uid dbg =
     (let pipeline_data = get_pipeline_data ctx (reco_name reco) in
      if dbg \<or> focus pipeline_data
      then [(MaaMsg_Task_Action_Starting, action_cb_detail self 0 (reco_name reco)),
            (if actuate (tasker' self) ctx region (reco_id reco) pipeline_data
             then MaaMsg_Task_Action_Succeeded else MaaMsg_Task_Action_Failed,
             action_cb_detail self uid (reco_name reco))]
      else [])"

text \<open>A sequence of events reaches the executor's tasker, if it has one.\<close>

definition deliver ::
  "TaskBase \<Rightarrow> NotificationEvent list \<Rightarrow> (Tasker_ptr \<Rightarrow> Tasker) \<Rightarrow> Tasker_ptr \<Rightarrow> Tasker" where
  "deliver self evs ts =
     (case tasker' self of
        None \<Rightarrow> ts
      | Some p \<Rightarrow> ts(p := (ts p)\<lparr>notified := notified (ts p) @ evs\<rparr>))"

section \<open>A concrete pipeline\<close>

text \<open>
  The example of the specification: candidates A, B and C, where A is disabled, B is
  enabled and does not match, and C is enabled and matches with region (10,10,5,5).
  Only B has its focus flag set; unknown names resolve to a disabled node. The actuator
  reports failure.
\<close>

definition example_context :: Context where
  "example_context = Context (\<lambda>nm.
     \<lparr>pd_name = nm, enabled = (nm = ''B'' \<or> nm = ''C''), focus = (nm = ''B''),
      opaque_config = []\<rparr>)"

definition example_recognizer :: Recognizer where
  "example_recognizer t ctx img pipeline_data =
     (if pd_name pipeline_data = ''C''
      then \<lparr>reco_id = 7, reco_name = ''C'', box = Some (10, 10, 5, 5)\<rparr>
      else \<lparr>reco_id = 6, reco_name = pd_name pipeline_data, box = None\<rparr>)"

definition example_actuator :: Actuator where
  "example_actuator t ctx region rid pipeline_data = False"

definition example_frame :: Mat where
  "example_frame = Mat [0, 0, 0, 0]"

definition example_task :: TaskBase where
  "example_task = \<lparr>tasker' = Some 0, entry' = ''Entry'', cur_task' = ''Entry'',
     task_id' = 1, context' = Some example_context\<rparr>"

definition example_match :: RecoResult where
  "example_match = \<lparr>reco_id = 7, reco_name = ''C'', box = Some (10, 10, 5, 5)\<rparr>"

definition example_world :: World where
  "example_world = \<lparr>s_global_node_id = 0, global_debug_mode = True,
     taskers = (\<lambda>p. \<lparr>runtime_cache = \<lparr>node_details = Map.empty, latest_nodes = Map.empty,
                                         task_details = Map.empty\<rparr>,
                      notified = []\<rparr>),
     error_log = [], recognizer_calls = [], actuator_calls = []\<rparr>"

text \<open>
  The same executor constructed with a null tasker; and the world after the example
  executor has been constructed (\<open>init\<close>) and has run one action on the match.
\<close>

definition example_detached_task :: TaskBase where
  "example_detached_task = example_task\<lparr>tasker' := None\<rparr>"

definition example_history_world :: World where
  "example_history_world =
     snd (run_action example_actuator example_task example_match
            (init example_task example_world))"

section \<open>What the two operations compute\<close>

lemma notify_deliver: "notify self msg d w = w\<lparr>taskers := deliver self [(msg, d)] (taskers w)\<rparr>"
  by (simp add: notify_def deliver_def Tasker_notify_def split: option.splits)

lemma deliver_Nil: "deliver self [] ts = ts"
  by (simp add: deliver_def split: option.splits)

lemma deliver_deliver: "deliver self b (deliver self a ts) = deliver self (a @ b) ts"
  by (simp add: deliver_def split: option.splits)

lemma evaluated_Nil: "evaluated_candidates R self ctx img [] = []"
  by (simp add: evaluated_candidates_def)

lemma evaluated_disabled:
  "\<not> enabled (get_pipeline_data ctx nm) \<Longrightarrow>
   evaluated_candidates R self ctx img (nm # rest) = evaluated_candidates R self ctx img rest"
  by (simp add: evaluated_candidates_def enabled_match_def)

lemma evaluated_miss:
  "enabled (get_pipeline_data ctx nm) \<Longrightarrow>
   box (R (tasker' self) ctx img (get_pipeline_data ctx nm)) = None \<Longrightarrow>
   evaluated_candidates R self ctx img (nm # rest) = nm # evaluated_candidates R self ctx img rest"
  by (simp add: evaluated_candidates_def enabled_match_def)

lemma evaluated_hit:
  "enabled_match R self ctx img nm \<Longrightarrow> evaluated_candidates R self ctx img (nm # rest) = [nm]"
  by (simp add: evaluated_candidates_def)

lemma evaluated_subseq: "subseq (evaluated_candidates R self ctx img list) list"
proof (induction list)
  case Nil
  show ?case by (simp add: evaluated_Nil)
next
  case (Cons nm rest)
  show ?case
  proof (cases "enabled_match R self ctx img nm")
    case True
    then show ?thesis by (simp add: evaluated_hit)
  next
    case miss: False
    show ?thesis
    proof (cases "enabled (get_pipeline_data ctx nm)")
      case True
      with miss have "box (R (tasker' self) ctx img (get_pipeline_data ctx nm)) = None"
        unfolding enabled_match_def by blast
      with True Cons show ?thesis
        by (simp add: evaluated_miss)
    next
      case False
      with Cons show ?thesis
        by (simp add: evaluated_disabled list_emb_Cons)
    qed
  qed
qed

lemma run_recognition_loop_eq:
  "run_recognition_loop R self ctx img cf d list w =
     (case find (enabled_match R self ctx img) list of
        None \<Rightarrow> RecoResult_empty
      | Some nm \<Rightarrow> R (tasker' self) ctx img (get_pipeline_data ctx nm),
      w\<lparr>taskers :=
          deliver self
            (concat (map (recognition_events R self ctx img (debug_mode w))
                       (evaluated_candidates R self ctx img list)) @
             (if debug_mode w \<or> cf
              then [(if find (enabled_match R self ctx img) list = None
                     then MaaMsg_Task_NextList_Failed else MaaMsg_Task_NextList_Succeeded, d)]
              else []))
            (taskers w),
        recognizer_calls := recognizer_calls w @
          map (\<lambda>nm. (img, get_pipeline_data ctx nm)) (evaluated_candidates R self ctx img list)\<rparr>)"
proof (induction list arbitrary: w)
  case Nil
  show ?case
    by (simp add: evaluated_Nil notify_deliver deliver_Nil)
next
  case (Cons nm rest)
  show ?case
  proof (cases "enabled (get_pipeline_data ctx nm)")
    case False
    then show ?thesis
      by (simp add: Cons.IH evaluated_disabled enabled_match_def)
  next
    case en: True
    show ?thesis
    proof (cases "box (R (tasker' self) ctx img (get_pipeline_data ctx nm))")
      case None
      with en show ?thesis
        by (simp add: Cons.IH evaluated_miss enabled_match_def Let_def notify_deliver
            deliver_deliver deliver_Nil debug_mode_def recognition_events_def)
    next
      case (Some b)
      with en have hit: "enabled_match R self ctx img nm"
        by (simp add: enabled_match_def)
      with en Some show ?thesis
        by (simp add: evaluated_hit Let_def notify_deliver
            deliver_deliver deliver_Nil debug_mode_def recognition_events_def)
    qed
  qed
qed

lemma run_recognition_eq:
  assumes "context' self = Some ctx" and "\<not> Mat_empty img"
  shows "run_recognition R self img list w =
     (case find (enabled_match R self ctx img) list of
        None \<Rightarrow> RecoResult_empty
      | Some nm \<Rightarrow> R (tasker' self) ctx img (get_pipeline_data ctx nm),
      w\<lparr>taskers :=
          deliver self (run_recognition_events R self ctx img list (debug_mode w)) (taskers w),
        recognizer_calls := recognizer_calls w @
          map (\<lambda>nm. (img, get_pipeline_data ctx nm)) (evaluated_candidates R self ctx img list)\<rparr>)"
  using assms
  by (simp add: run_recognition_def run_recognition_loop_eq Let_def notify_deliver
      deliver_deliver deliver_Nil debug_mode_def run_recognition_events_def
      list_starting_events_def list_final_events_def)

lemma run_action_eq:
  assumes "context' self = Some ctx" and "box reco = Some region"
  shows "run_action A self reco w =
     (let uid = s_global_node_id w + 1;
          pipeline_data = get_pipeline_data ctx (reco_name reco);
          result = \<lparr>node_id = uid, node_name = reco_name reco, node_reco_id = reco_id reco,
                    completed = A (tasker' self) ctx region (reco_id reco) pipeline_data\<rparr>;
          w1 = w\<lparr>s_global_node_id := uid,
                 actuator_calls := actuator_calls w @ [(region, reco_id reco, pipeline_data)]\<rparr>
      in (result,
          case tasker' self of
            None \<Rightarrow> w1\<lparr>error_log := error_log w @ [''tasker is null'']\<rparr>
          | Some p \<Rightarrow>
              w1\<lparr>taskers := (taskers w)(p := (taskers w p)
                   \<lparr>runtime_cache := (runtime_cache (taskers w p))
                      \<lparr>node_details := (node_details (runtime_cache (taskers w p)))(uid \<mapsto> result),
                       latest_nodes := (latest_nodes (runtime_cache (taskers w p)))(reco_name reco \<mapsto> uid),
                       task_details := (task_details (runtime_cache (taskers w p)))(task_id' self \<mapsto>
                          (let d = (case task_details (runtime_cache (taskers w p)) (task_id' self) of
                                      Some d \<Rightarrow> d | None \<Rightarrow> \<lparr>entry = entry' self, node_ids = []\<rparr>)
                           in d\<lparr>node_ids := node_ids d @ [uid]\<rparr>))\<rparr>,
                    notified := notified (taskers w p) @
                      action_events A self ctx reco region uid (debug_mode w)\<rparr>)\<rparr>))"
  using assms
  by (cases "tasker' self")
     (simp_all add: run_action_def Let_def generate_node_id_def set_node_detail_def
      set_task_detail_def notify_def Tasker_notify_def LogError_def debug_mode_def
      action_events_def cache_set_node_detail_def cache_set_latest_node_def
      cache_get_task_detail_def cache_set_task_detail_def)

lemma run_recognition_runtime_cache:
  "runtime_cache (taskers (snd (run_recognition R self img list w)) q) =
   runtime_cache (taskers w q)"
proof (cases "context' self")
  case None
  then show ?thesis
    by (simp add: run_recognition_def LogError_def)
next
  case (Some ctx)
  show ?thesis
  proof (cases "Mat_empty img")
    case True
    with Some show ?thesis
      by (simp add: run_recognition_def LogError_def)
  next
    case False
    show ?thesis
      by (simp add: run_recognition_eq [OF Some False] deliver_def split: option.splits)
  qed
qed

lemma recognition_events_kinds:
  "fst ` set (concat (map (recognition_events R self ctx img dbg) nms)) \<subseteq>
     {MaaMsg_Task_Recognition_Starting, MaaMsg_Task_Recognition_Succeeded,
      MaaMsg_Task_Recognition_Failed}"
  by (auto simp: recognition_events_def Let_def split: if_splits)

lemma list_succeeded_in_events:
  "MaaMsg_Task_NextList_Succeeded \<in> fst ` set (run_recognition_events R self ctx img list dbg) \<longleftrightarrow>
     (dbg \<or> focus (get_pipeline_data ctx (cur_task' self))) \<and>
     find (enabled_match R self ctx img) list \<noteq> None"
  using recognition_events_kinds [of R self ctx img dbg "evaluated_candidates R self ctx img list"]
  by (auto simp: run_recognition_events_def list_starting_events_def list_final_events_def
      image_Un)

lemma list_failed_in_events:
  "MaaMsg_Task_NextList_Failed \<in> fst ` set (run_recognition_events R self ctx img list dbg) \<longleftrightarrow>
     (dbg \<or> focus (get_pipeline_data ctx (cur_task' self))) \<and>
     find (enabled_match R self ctx img) list = None"
  using recognition_events_kinds [of R self ctx img dbg "evaluated_candidates R self ctx img list"]
  by (auto simp: run_recognition_events_def list_starting_events_def list_final_events_def
      image_Un)

lemma last_run_recognition_events:
  "dbg \<or> focus (get_pipeline_data ctx (cur_task' self)) \<Longrightarrow>
   last (run_recognition_events R self ctx img list dbg) =
     (if find (enabled_match R self ctx img) list = None
      then MaaMsg_Task_NextList_Failed else MaaMsg_Task_NextList_Succeeded,
      reco_list_cb_detail self list)"
  by (simp add: run_recognition_events_def list_final_events_def)

lemma sint_add_of_nat:
  fixes c :: "64 word"
  assumes "sint c + int k < 2 ^ 63"
  shows "sint (c + of_nat k) = sint c + int k"
proof -
  have lo: "- (2 ^ 63) \<le> sint c"
    using sint_ge [of c] by simp
  have "c + of_nat k = word_of_int (sint c + int k)"
    by simp
  then have "sint (c + of_nat k) = signed_take_bit 63 (sint c + int k)"
    by (simp only: sint_sbintrunc') simp
  also have "\<dots> = sint c + int k"
    using lo assms by (intro signed_take_bit_int_eq_self) simp_all
  finally show ?thesis .
qed

lemma sorted_wrt_irrefl_distinct:
  assumes "sorted_wrt P xs" and "\<And>a. \<not> P a a"
  shows "distinct xs"
  using assms by (induction xs) auto

lemma run_action_allocates:
  assumes "context' self \<noteq> None" and "box reco \<noteq> None"
  shows "node_id (fst (run_action A self reco w)) = s_global_node_id w + 1"
    and "s_global_node_id (snd (run_action A self reco w)) = s_global_node_id w + 1"
proof -
  from assms obtain ctx region where "context' self = Some ctx" and "box reco = Some region"
    by auto
  then show "node_id (fst (run_action A self reco w)) = s_global_node_id w + 1"
    and "s_global_node_id (snd (run_action A self reco w)) = s_global_node_id w + 1"
    by (simp_all add: run_action_eq Let_def split: option.splits)
qed

lemma run_actions_node_ids:
  assumes "\<forall>(self, reco) \<in> set calls. context' self \<noteq> None \<and> box reco \<noteq> None"
  shows "map node_id (fst (run_actions A calls w)) =
           map (\<lambda>k. s_global_node_id w + of_nat k) [1..<Suc (length calls)] \<and>
         s_global_node_id (snd (run_actions A calls w)) =
           s_global_node_id w + of_nat (length calls)"
  using assms
proof (induction calls arbitrary: w)
  case Nil
  show ?case by simp
next
  case (Cons call rest)
  obtain self reco where call: "call = (self, reco)"
    by (cases call)
  from Cons.prems call have pre: "context' self \<noteq> None" "box reco \<noteq> None"
    and rest: "\<forall>(self, reco) \<in> set rest. context' self \<noteq> None \<and> box reco \<noteq> None"
    by simp_all
  let ?w1 = "snd (run_action A self reco w)"
  have ids: "[Suc 0..<Suc (Suc (length rest))] = Suc 0 # map Suc [Suc 0..<Suc (length rest)]"
    by (simp add: map_Suc_upt upt_conv_Cons del: upt_Suc)
  show ?case
    using Cons.IH [OF rest, of ?w1] run_action_allocates [OF pre, of A w]
    by (simp add: call split_beta ids add.assoc del: upt_Suc)
qed


section \<open>Recognition\<close>

text \<open>
  Claim C1. With a bound context and a non-empty frame, \<open>run_recognition\<close> returns
  the recognizer's result for the first candidate, in list order, that is enabled and
  whose result carries a region, and the empty result if there is none. The calls it
  makes to the recognizer are, in this order, those for the evaluated candidates: the
  enabled candidates before that first match, then the match. The evaluated candidates
  are a subsequence of the list, in its order, and each is enabled: no call is made for
  a disabled candidate or for a candidate after the match.
\<close>

theorem run_recognition_first_enabled_match:
  assumes "context' self = Some ctx" and "\<not> Mat_empty img"
  shows "fst (run_recognition R self img list w) =
           (case find (enabled_match R self ctx img) list of
              None \<Rightarrow> RecoResult_empty
            | Some nm \<Rightarrow> R (tasker' self) ctx img (get_pipeline_data ctx nm)) \<and>
         recognizer_calls (snd (run_recognition R self img list w)) =
           recognizer_calls w @
           map (\<lambda>nm. (img, get_pipeline_data ctx nm)) (evaluated_candidates R self ctx img list) \<and>
         subseq (evaluated_candidates R self ctx img list) list \<and>
         (\<forall>nm \<in> set (evaluated_candidates R self ctx img list).
            enabled (get_pipeline_data ctx nm))"
proof -
  have mem: "x \<in> set xs \<and> P x" if "Some x = find P xs" for P and xs :: "string list" and x
    using that [symmetric] by (auto simp: find_Some_iff)
  have "\<forall>nm \<in> set (evaluated_candidates R self ctx img list).
      enabled (get_pipeline_data ctx nm)"
    by (auto simp: evaluated_candidates_def enabled_match_def split: option.splits
        dest: set_takeWhileD mem)
  then show ?thesis
    by (simp add: run_recognition_eq [OF assms] evaluated_subseq)
qed

text \<open>
  The specification's example, with B once more after the match: the result is C's,
  and the recognizer has been called for B and for C only.
\<close>

theorem run_recognition_first_enabled_match_witness:
  "context' example_task = Some example_context \<and> \<not> Mat_empty example_frame \<and>
   fst (run_recognition example_recognizer example_task example_frame [''A'', ''B'', ''C'', ''B'']
          example_world) = example_match \<and>
   map (pd_name \<circ> snd)
     (recognizer_calls (snd (run_recognition example_recognizer example_task example_frame
        [''A'', ''B'', ''C'', ''B''] example_world))) = [''B'', ''C'']"
  using run_recognition_first_enabled_match [of example_task example_context example_frame
      example_recognizer "[''A'', ''B'', ''C'', ''B'']" example_world]
  by (simp add: example_task_def example_context_def example_frame_def Mat_empty_def
      example_recognizer_def example_match_def example_world_def enabled_match_def
      evaluated_candidates_def)

text \<open>
  Claim C2. Without a bound context, or on an empty frame, \<open>run_recognition\<close> returns
  the empty result as a value; the world changes by one error line only: no recognizer
  call is made and no tasker receives an event.
\<close>

theorem run_recognition_guard:
  assumes "context' self = None \<or> Mat_empty img"
  shows "run_recognition R self img list w =
           (RecoResult_empty,
            LogError (if context' self = None then ''context is null'' else ''Image is empty'') w) \<and>
         recognizer_calls (snd (run_recognition R self img list w)) = recognizer_calls w \<and>
         taskers (snd (run_recognition R self img list w)) = taskers w"
  using assms
  by (auto simp: run_recognition_def LogError_def split: option.splits)

text \<open>
  The example executor on an empty frame, with debug mode on.
\<close>

theorem run_recognition_guard_witness:
  "(context' example_task = None \<or> Mat_empty (Mat [])) \<and>
   run_recognition example_recognizer example_task (Mat []) [''A'', ''B'', ''C''] example_world =
     (RecoResult_empty, LogError ''Image is empty'' example_world) \<and>
   recognizer_calls (snd (run_recognition example_recognizer example_task (Mat [])
      [''A'', ''B'', ''C''] example_world)) = [] \<and>
   notified (taskers (snd (run_recognition example_recognizer example_task (Mat [])
      [''A'', ''B'', ''C''] example_world)) 0) = []"
  using run_recognition_guard [of example_task "Mat []" example_recognizer
      "[''A'', ''B'', ''C'']" example_world]
  by (simp add: example_task_def Mat_empty_def example_world_def LogError_def)

text \<open>
  Claim C6, as amended. On an executor with a tasker and a bound context, the events
  the tasker receives from one \<open>run_recognition\<close> are the list-level start event, then
  for each evaluated candidate in order its recognition events, then the list-level
  final event; those of one \<open>run_action\<close> on a matched result are its action events.
  The recognition events of a candidate, and the action events of the matched node, are
  there if and only if debug mode is on or that node's own focus flag is set, and are
  then exactly two: \<open>Starting\<close> with id 0, and \<open>Succeeded\<close> or \<open>Failed\<close> with the
  recognizer's recognition id, respectively the node id just allocated.
\<close>

theorem node_events_iff_debug_or_focus:
  assumes "tasker' self = Some p" and "context' self = Some ctx"
  shows "(\<not> Mat_empty img \<longrightarrow>
            notified (taskers (snd (run_recognition R self img list w)) p) =
              notified (taskers w p) @
              list_starting_events self ctx list (debug_mode w) @
              concat (map (recognition_events R self ctx img (debug_mode w))
                        (evaluated_candidates R self ctx img list)) @
              list_final_events R self ctx img list (debug_mode w)) \<and>
         (box reco = Some region \<longrightarrow>
            notified (taskers (snd (run_action A self reco w)) p) =
              notified (taskers w p) @
              action_events A self ctx reco region (s_global_node_id w + 1) (debug_mode w)) \<and>
         recognition_events R self ctx img dbg nm =
           (if dbg \<or> focus (get_pipeline_data ctx nm)
            then [(MaaMsg_Task_Recognition_Starting, reco_cb_detail self 0 nm),
                  (if box (R (tasker' self) ctx img (get_pipeline_data ctx nm)) \<noteq> None
                   then MaaMsg_Task_Recognition_Succeeded else MaaMsg_Task_Recognition_Failed,
                   reco_cb_detail self
                     (reco_id (R (tasker' self) ctx img (get_pipeline_data ctx nm))) nm)]
            else []) \<and>
         action_events A self ctx reco region uid dbg =
           (if dbg \<or> focus (get_pipeline_data ctx (reco_name reco))
            then [(MaaMsg_Task_Action_Starting, action_cb_detail self 0 (reco_name reco)),
                  (if A (tasker' self) ctx region (reco_id reco)
                        (get_pipeline_data ctx (reco_name reco))
                   then MaaMsg_Task_Action_Succeeded else MaaMsg_Task_Action_Failed,
                   action_cb_detail self uid (reco_name reco))]
            else [])"
proof -
  have reco: "notified (taskers (snd (run_recognition R self img list w)) p) =
      notified (taskers w p) @ run_recognition_events R self ctx img list (debug_mode w)"
    if "\<not> Mat_empty img"
    using assms(1) by (simp add: run_recognition_eq [OF assms(2) that] deliver_def)
  have act: "notified (taskers (snd (run_action A self reco w)) p) =
      notified (taskers w p) @
      action_events A self ctx reco region (s_global_node_id w + 1) (debug_mode w)"
    if "box reco = Some region"
    using assms(1) by (simp add: run_action_eq [OF assms(2) that] Let_def)
  show ?thesis
    using reco act
    by (simp add: run_recognition_events_def recognition_events_def action_events_def Let_def)
qed

text \<open>
  The example pipeline. With debug mode off only B, the one candidate with its focus
  flag set, produces events, and the action on C produces none; with debug mode on the
  action on C produces \<open>Starting\<close> with node id 0 and \<open>Failed\<close> with node id 1.
\<close>

theorem node_events_iff_debug_or_focus_witness:
  "tasker' example_task = Some 0 \<and> context' example_task = Some example_context \<and>
   \<not> Mat_empty example_frame \<and> box example_match = Some (10, 10, 5, 5) \<and>
   \<not> debug_mode (example_world\<lparr>global_debug_mode := False\<rparr>) \<and>
   notified (taskers (snd (run_recognition example_recognizer example_task example_frame
     [''A'', ''B'', ''C''] (example_world\<lparr>global_debug_mode := False\<rparr>))) 0) =
     [(MaaMsg_Task_Recognition_Starting,
       [(''task_id'', JInt 1), (''reco_id'', JInt 0), (''name'', JString ''B'')]),
      (MaaMsg_Task_Recognition_Failed,
       [(''task_id'', JInt 1), (''reco_id'', JInt 6), (''name'', JString ''B'')])] \<and>
   notified (taskers (snd (run_action example_actuator example_task example_match
     (example_world\<lparr>global_debug_mode := False\<rparr>))) 0) = [] \<and>
   notified (taskers (snd (run_action example_actuator example_task example_match
     example_world)) 0) =
     [(MaaMsg_Task_Action_Starting,
       [(''task_id'', JInt 1), (''node_id'', JInt 0), (''name'', JString ''C'')]),
      (MaaMsg_Task_Action_Failed,
       [(''task_id'', JInt 1), (''node_id'', JInt 1), (''name'', JString ''C'')])]"
proof -
  have ctx: "context' example_task = Some example_context"
    and tsk: "tasker' example_task = Some 0"
    and reg: "box example_match = Some (10, 10, 5, 5)"
    and img: "\<not> Mat_empty example_frame"
    by (simp_all add: example_task_def example_match_def example_frame_def Mat_empty_def)
  have ev: "evaluated_candidates example_recognizer example_task example_context
      example_frame [''A'', ''B'', ''C''] = [''B'', ''C'']"
    by (simp add: evaluated_candidates_def enabled_match_def example_context_def
        example_recognizer_def)
  note quiet = node_events_iff_debug_or_focus [OF tsk ctx, where img = example_frame
      and R = example_recognizer and list = "[''A'', ''B'', ''C'']"
      and w = "example_world\<lparr>global_debug_mode := False\<rparr>" and reco = example_match
      and region = "(10, 10, 5, 5)" and A = example_actuator and dbg = False and nm = "''B''"
      and uid = 1]
  note loud = node_events_iff_debug_or_focus [OF tsk ctx, where img = example_frame
      and R = example_recognizer and list = "[''A'', ''B'', ''C'']"
      and w = example_world and reco = example_match
      and region = "(10, 10, 5, 5)" and A = example_actuator and dbg = True and nm = "''C''"
      and uid = 1]
  have dm: "debug_mode example_world" "\<not> debug_mode (example_world\<lparr>global_debug_mode := False\<rparr>)"
    "s_global_node_id example_world = 0" "notified (taskers example_world 0) = []"
    by (simp_all add: debug_mode_def example_world_def)
  show ?thesis
    using quiet loud
    by (simp add: ctx tsk reg img ev dm)
       (simp add: list_starting_events_def list_final_events_def recognition_events_def
         action_events_def example_context_def example_recognizer_def example_actuator_def
         example_task_def example_match_def example_world_def reco_cb_detail_def
         action_cb_detail_def enabled_match_def)
qed

text \<open>
  The claim as stated, for every evaluated candidate and matched node, fails on an
  executor constructed with a null tasker: \<open>notify\<close> returns at its guard. With debug
  mode on, B and C are evaluated and the action on C allocates node id 1, and no tasker
  has received anything.
\<close>

theorem node_events_null_tasker_silent:
  "debug_mode example_world \<and>
   context' example_detached_task = Some example_context \<and>
   box example_match = Some (10, 10, 5, 5) \<and>
   evaluated_candidates example_recognizer example_detached_task example_context
     example_frame [''A'', ''B'', ''C''] = [''B'', ''C''] \<and>
   taskers (snd (run_recognition example_recognizer example_detached_task example_frame
     [''A'', ''B'', ''C''] example_world)) = taskers example_world \<and>
   node_id (fst (run_action example_actuator example_detached_task example_match
     example_world)) = 1 \<and>
   taskers (snd (run_action example_actuator example_detached_task example_match
     example_world)) = taskers example_world"
proof -
  have ctx: "context' example_detached_task = Some example_context"
    and tsk: "tasker' example_detached_task = None"
    and reg: "box example_match = Some (10, 10, 5, 5)"
    and img: "\<not> Mat_empty example_frame"
    by (simp_all add: example_detached_task_def example_task_def example_match_def
        example_frame_def Mat_empty_def)
  have ev: "evaluated_candidates example_recognizer example_detached_task example_context
      example_frame [''A'', ''B'', ''C''] = [''B'', ''C'']"
    by (simp add: evaluated_candidates_def enabled_match_def example_context_def
        example_recognizer_def)
  show ?thesis
    by (simp add: ctx reg ev run_recognition_eq [OF ctx img] run_action_eq [OF ctx reg]
        tsk deliver_def Let_def)
       (simp add: debug_mode_def example_world_def)
qed

text \<open>
  Claim C8. With a bound context and a non-empty frame, the events a tasker receives
  from one \<open>run_recognition\<close> are those of \<open>run_recognition_events\<close> if it is the
  executor's tasker and none otherwise. Among them \<open>NextList.Succeeded\<close> and
  \<open>NextList.Failed\<close> never both occur. When an enabled candidate matches, the call
  returns that match, \<open>NextList.Failed\<close> does not occur, and \<open>NextList.Succeeded\<close> is
  the last event if debug mode is on or the current node (\<open>cur_task'\<close>) has its focus
  flag set, and does not occur otherwise. When none matches, the call returns the empty
  result, with the two kinds exchanged.
\<close>

theorem run_recognition_list_outcome:
  assumes "context' self = Some ctx" and "\<not> Mat_empty img"
  shows "notified (taskers (snd (run_recognition R self img list w)) p) =
           notified (taskers w p) @
           (if tasker' self = Some p
            then run_recognition_events R self ctx img list (debug_mode w) else []) \<and>
         \<not> (MaaMsg_Task_NextList_Succeeded \<in>
               fst ` set (run_recognition_events R self ctx img list (debug_mode w)) \<and>
             MaaMsg_Task_NextList_Failed \<in>
               fst ` set (run_recognition_events R self ctx img list (debug_mode w))) \<and>
         (case find (enabled_match R self ctx img) list of
            Some nm \<Rightarrow>
              fst (run_recognition R self img list w) =
                R (tasker' self) ctx img (get_pipeline_data ctx nm) \<and>
              box (fst (run_recognition R self img list w)) \<noteq> None \<and>
              MaaMsg_Task_NextList_Failed \<notin>
                fst ` set (run_recognition_events R self ctx img list (debug_mode w)) \<and>
              (if debug_mode w \<or> focus (get_pipeline_data ctx (cur_task' self))
               then last (run_recognition_events R self ctx img list (debug_mode w)) =
                      (MaaMsg_Task_NextList_Succeeded, reco_list_cb_detail self list)
               else MaaMsg_Task_NextList_Succeeded \<notin>
                      fst ` set (run_recognition_events R self ctx img list (debug_mode w)))
          | None \<Rightarrow>
              fst (run_recognition R self img list w) = RecoResult_empty \<and>
              MaaMsg_Task_NextList_Succeeded \<notin>
                fst ` set (run_recognition_events R self ctx img list (debug_mode w)) \<and>
              (if debug_mode w \<or> focus (get_pipeline_data ctx (cur_task' self))
               then last (run_recognition_events R self ctx img list (debug_mode w)) =
                      (MaaMsg_Task_NextList_Failed, reco_list_cb_detail self list)
               else MaaMsg_Task_NextList_Failed \<notin>
                      fst ` set (run_recognition_events R self ctx img list (debug_mode w))))"
proof -
  let ?evs = "run_recognition_events R self ctx img list (debug_mode w)"
  have log: "notified (taskers (snd (run_recognition R self img list w)) p) =
      notified (taskers w p) @ (if tasker' self = Some p then ?evs else [])"
    by (simp add: run_recognition_eq [OF assms] deliver_def split: option.splits)
  have both: "\<not> (MaaMsg_Task_NextList_Succeeded \<in> fst ` set ?evs \<and>
      MaaMsg_Task_NextList_Failed \<in> fst ` set ?evs)"
    by (cases "find (enabled_match R self ctx img) list")
       (simp_all add: list_succeeded_in_events list_failed_in_events)
  have outcome: "?thesis" if "find (enabled_match R self ctx img) list = None"
    using that log both
    by (simp add: run_recognition_eq [OF assms] list_succeeded_in_events
        list_failed_in_events last_run_recognition_events)
  have hit: "?thesis" if "find (enabled_match R self ctx img) list = Some nm" for nm
  proof -
    from that have "enabled_match R self ctx img nm"
      by (auto simp: find_Some_iff)
    then have "box (R (tasker' self) ctx img (get_pipeline_data ctx nm)) \<noteq> None"
      by (simp add: enabled_match_def)
    with that log both show ?thesis
      by (simp add: run_recognition_eq [OF assms] list_succeeded_in_events
          list_failed_in_events last_run_recognition_events)
  qed
  show ?thesis
    using outcome hit by (cases "find (enabled_match R self ctx img) list") blast+
qed

text \<open>
  The specification's two examples with debug mode on: [A, B, C] ends with
  \<open>NextList.Succeeded\<close> and returns C's match although neither C nor the current node
  has its focus flag set; [A, B] ends with \<open>NextList.Failed\<close> and returns the empty
  result.
\<close>

theorem run_recognition_list_outcome_witness:
  "context' example_task = Some example_context \<and> \<not> Mat_empty example_frame \<and>
   focus (get_pipeline_data example_context ''C'') = False \<and>
   focus (get_pipeline_data example_context (cur_task' example_task)) = False \<and>
   map fst (notified (taskers (snd (run_recognition example_recognizer example_task
     example_frame [''A'', ''B'', ''C''] example_world)) 0)) =
     [MaaMsg_Task_NextList_Starting, MaaMsg_Task_Recognition_Starting,
      MaaMsg_Task_Recognition_Failed, MaaMsg_Task_Recognition_Starting,
      MaaMsg_Task_Recognition_Succeeded, MaaMsg_Task_NextList_Succeeded] \<and>
   fst (run_recognition example_recognizer example_task example_frame
     [''A'', ''B'', ''C''] example_world) = example_match \<and>
   map fst (notified (taskers (snd (run_recognition example_recognizer example_task
     example_frame [''A'', ''B''] example_world)) 0)) =
     [MaaMsg_Task_NextList_Starting, MaaMsg_Task_Recognition_Starting,
      MaaMsg_Task_Recognition_Failed, MaaMsg_Task_NextList_Failed] \<and>
   fst (run_recognition example_recognizer example_task example_frame
     [''A'', ''B''] example_world) = RecoResult_empty"
proof -
  have ctx: "context' example_task = Some example_context"
    and tsk: "tasker' example_task = Some 0"
    and img: "\<not> Mat_empty example_frame"
    by (simp_all add: example_task_def example_frame_def Mat_empty_def)
  have dm: "debug_mode example_world" "notified (taskers example_world 0) = []"
    by (simp_all add: debug_mode_def example_world_def)
  have fnd: "find (enabled_match example_recognizer example_task example_context
      example_frame) [''A'', ''B'', ''C''] = Some ''C''"
    "find (enabled_match example_recognizer example_task example_context
      example_frame) [''A'', ''B''] = None"
    by (simp_all add: enabled_match_def example_context_def example_recognizer_def)
  have evs: "map fst (run_recognition_events example_recognizer example_task example_context
      example_frame [''A'', ''B'', ''C''] True) =
     [MaaMsg_Task_NextList_Starting, MaaMsg_Task_Recognition_Starting,
      MaaMsg_Task_Recognition_Failed, MaaMsg_Task_Recognition_Starting,
      MaaMsg_Task_Recognition_Succeeded, MaaMsg_Task_NextList_Succeeded]"
    "map fst (run_recognition_events example_recognizer example_task example_context
      example_frame [''A'', ''B''] True) =
     [MaaMsg_Task_NextList_Starting, MaaMsg_Task_Recognition_Starting,
      MaaMsg_Task_Recognition_Failed, MaaMsg_Task_NextList_Failed]"
    by (simp_all add: run_recognition_events_def list_starting_events_def
        list_final_events_def recognition_events_def evaluated_candidates_def
        enabled_match_def example_context_def example_recognizer_def)
  have foc: "focus (get_pipeline_data example_context ''C'') = False"
    "focus (get_pipeline_data example_context (cur_task' example_task)) = False"
    by (simp_all add: example_context_def example_task_def)
  have rec: "example_recognizer (Some 0) example_context example_frame
      (get_pipeline_data example_context ''C'') = example_match"
    by (simp add: example_recognizer_def example_context_def example_match_def)
  have hit: "notified (taskers (snd (run_recognition example_recognizer example_task
      example_frame [''A'', ''B'', ''C''] example_world)) 0) =
      run_recognition_events example_recognizer example_task example_context
        example_frame [''A'', ''B'', ''C''] True \<and>
    fst (run_recognition example_recognizer example_task example_frame
      [''A'', ''B'', ''C''] example_world) = example_match"
    using run_recognition_list_outcome [OF ctx img, of example_recognizer
        "[''A'', ''B'', ''C'']" example_world 0]
    unfolding fnd by (simp add: tsk dm rec)
  have miss: "notified (taskers (snd (run_recognition example_recognizer example_task
      example_frame [''A'', ''B''] example_world)) 0) =
      run_recognition_events example_recognizer example_task example_context
        example_frame [''A'', ''B''] True \<and>
    fst (run_recognition example_recognizer example_task example_frame
      [''A'', ''B''] example_world) = RecoResult_empty"
    using run_recognition_list_outcome [OF ctx img, of example_recognizer
        "[''A'', ''B'']" example_world 0]
    unfolding fnd by (simp add: tsk dm)
  show ?thesis
    using hit miss by (simp add: ctx img evs foc)
qed

section \<open>Action and execution history\<close>

text \<open>
  Claim C3. On a result without a region \<open>run_action\<close> returns the empty record; it
  makes no actuator call, allocates no node id and leaves every tasker, and with it
  every store of every Runtime Cache, as it was.
\<close>

theorem run_action_unmatched:
  assumes "box reco = None"
  shows "fst (run_action A self reco w) = NodeDetail_empty \<and>
         actuator_calls (snd (run_action A self reco w)) = actuator_calls w \<and>
         s_global_node_id (snd (run_action A self reco w)) = s_global_node_id w \<and>
         taskers (snd (run_action A self reco w)) = taskers w"
  using assms
  by (simp add: run_action_def LogError_def split: option.splits)

text \<open>
  The example executor on the empty recognition result.
\<close>

theorem run_action_unmatched_witness:
  "box RecoResult_empty = None \<and>
   fst (run_action example_actuator example_task RecoResult_empty example_world) =
     NodeDetail_empty \<and>
   actuator_calls (snd (run_action example_actuator example_task RecoResult_empty
     example_world)) = [] \<and>
   s_global_node_id (snd (run_action example_actuator example_task RecoResult_empty
     example_world)) = 0 \<and>
   cache_get_task_detail 1 (runtime_cache (taskers (snd (run_action example_actuator
     example_task RecoResult_empty example_world)) 0)) = None \<and>
   cache_get_node_detail 1 (runtime_cache (taskers (snd (run_action example_actuator
     example_task RecoResult_empty example_world)) 0)) = None \<and>
   cache_get_latest_node [] (runtime_cache (taskers (snd (run_action example_actuator
     example_task RecoResult_empty example_world)) 0)) = None"
  using run_action_unmatched [of RecoResult_empty example_actuator example_task example_world]
  by (simp add: RecoResult_empty_def example_world_def cache_get_task_detail_def
      cache_get_node_detail_def cache_get_latest_node_def)

text \<open>
  Claim C4, as amended. With a bound context and a matched result, \<open>run_action\<close>
  increments the global counter and returns a record carrying the new counter value as
  node id, the matched name, the recognition id, and as \<open>completed\<close> the actuator's
  answer, whatever it is. The record is stored under its id in the Runtime Cache of the
  executor's tasker when the executor has one.
\<close>

theorem run_action_record:
  assumes "context' self = Some ctx" and "box reco = Some region"
  shows "fst (run_action A self reco w) =
           \<lparr>node_id = s_global_node_id w + 1, node_name = reco_name reco,
            node_reco_id = reco_id reco,
            completed = A (tasker' self) ctx region (reco_id reco)
                          (get_pipeline_data ctx (reco_name reco))\<rparr> \<and>
         s_global_node_id (snd (run_action A self reco w)) = s_global_node_id w + 1 \<and>
         s_global_node_id w + 1 \<noteq> s_global_node_id w \<and>
         (\<forall>p. tasker' self = Some p \<longrightarrow>
            cache_get_node_detail (s_global_node_id w + 1)
              (runtime_cache (taskers (snd (run_action A self reco w)) p)) =
            Some (fst (run_action A self reco w)))"
  by (cases "tasker' self")
     (simp_all add: run_action_eq [OF assms] Let_def cache_get_node_detail_def)

text \<open>
  The example executor, whose actuator reports failure: the record with
  \<open>completed = False\<close> is returned and stored.
\<close>

theorem run_action_record_witness:
  "context' example_task = Some example_context \<and> box example_match = Some (10, 10, 5, 5) \<and>
   tasker' example_task = Some 0 \<and>
   fst (run_action example_actuator example_task example_match example_world) =
     \<lparr>node_id = 1, node_name = ''C'', node_reco_id = 7, completed = False\<rparr> \<and>
   s_global_node_id (snd (run_action example_actuator example_task example_match
     example_world)) = 1 \<and>
   cache_get_node_detail 1 (runtime_cache (taskers (snd (run_action example_actuator
     example_task example_match example_world)) 0)) =
     Some \<lparr>node_id = 1, node_name = ''C'', node_reco_id = 7, completed = False\<rparr>"
  using run_action_record [of example_task example_context example_match "(10, 10, 5, 5)"
      example_actuator example_world]
  by (simp add: example_task_def example_match_def example_world_def example_actuator_def)

text \<open>
  The claim as stated, for every bound context, fails on an executor constructed with a
  null tasker: \<open>set_node_detail\<close> returns at its guard, so the record with node id 1
  is returned and no tasker has changed; no cache holds it.
\<close>

theorem null_tasker_record_not_persisted:
  "context' example_detached_task = Some example_context \<and>
   box example_match = Some (10, 10, 5, 5) \<and>
   node_id (fst (run_action example_actuator example_detached_task example_match
     example_world)) = 1 \<and>
   taskers (snd (run_action example_actuator example_detached_task example_match
     example_world)) = taskers example_world \<and>
   cache_get_node_detail 1 (runtime_cache (taskers (snd (run_action example_actuator
     example_detached_task example_match example_world)) 0)) = None"
  by (simp add: run_action_def example_detached_task_def example_task_def example_match_def
      example_world_def example_context_def example_actuator_def Let_def
      generate_node_id_def set_node_detail_def notify_def LogError_def debug_mode_def
      cache_get_node_detail_def)

text \<open>
  Claim C5. A \<open>run_action\<close> that passes its guards on an executor with a tasker
  stores the record under its node id and leaves the task's record holding the prior
  list of node ids with the new id appended at the end (the prior record being the one
  with the empty list when the cache has none for the task). No other task's record
  and no other tasker's cache entry for a task changes, and \<open>run_recognition\<close> changes
  no Runtime Cache at all.
\<close>

theorem run_action_appends_history:
  assumes "tasker' self = Some p" and "context' self = Some ctx" and "box reco = Some region"
  shows "cache_get_node_detail (node_id (fst (run_action A self reco w)))
           (runtime_cache (taskers (snd (run_action A self reco w)) p)) =
           Some (fst (run_action A self reco w)) \<and>
         cache_get_task_detail (task_id' self)
           (runtime_cache (taskers (snd (run_action A self reco w)) p)) =
           Some ((case cache_get_task_detail (task_id' self) (runtime_cache (taskers w p)) of
                    Some d \<Rightarrow> d
                  | None \<Rightarrow> \<lparr>entry = entry' self, node_ids = []\<rparr>)
                 \<lparr>node_ids :=
                    node_ids (case cache_get_task_detail (task_id' self)
                                     (runtime_cache (taskers w p)) of
                                Some d \<Rightarrow> d
                              | None \<Rightarrow> \<lparr>entry = entry' self, node_ids = []\<rparr>) @
                    [node_id (fst (run_action A self reco w))]\<rparr>) \<and>
         (\<forall>q T. (q, T) \<noteq> (p, task_id' self) \<longrightarrow>
            cache_get_task_detail T (runtime_cache (taskers (snd (run_action A self reco w)) q)) =
            cache_get_task_detail T (runtime_cache (taskers w q))) \<and>
         (\<forall>q. runtime_cache (taskers (snd (run_recognition R self img list w)) q) =
              runtime_cache (taskers w q))"
  using assms(1)
  by (simp add: run_action_eq [OF assms(2,3)] Let_def cache_get_node_detail_def
      cache_get_task_detail_def run_recognition_runtime_cache)

text \<open>
  A second action of the example executor: the history [1] becomes [1, 2].
\<close>

theorem run_action_appends_history_witness:
  "tasker' example_task = Some 0 \<and> context' example_task = Some example_context \<and>
   box example_match = Some (10, 10, 5, 5) \<and>
   cache_get_task_detail 1 (runtime_cache (taskers example_history_world 0)) =
     Some \<lparr>entry = ''Entry'', node_ids = [1]\<rparr> \<and>
   node_id (fst (run_action example_actuator example_task example_match
     example_history_world)) = 2 \<and>
   cache_get_task_detail 1 (runtime_cache (taskers (snd (run_action example_actuator
     example_task example_match example_history_world)) 0)) =
     Some \<lparr>entry = ''Entry'', node_ids = [1, 2]\<rparr>"
proof -
  have ctx: "context' example_task = Some example_context"
    and tsk: "tasker' example_task = Some 0"
    and reg: "box example_match = Some (10, 10, 5, 5)"
    by (simp_all add: example_task_def example_match_def)
  have prior: "cache_get_task_detail 1 (runtime_cache (taskers example_history_world 0)) =
      Some \<lparr>entry = ''Entry'', node_ids = [1]\<rparr>"
    and counter: "s_global_node_id example_history_world = 1"
    by (simp_all add: example_history_world_def run_action_eq [OF ctx reg] tsk Let_def
        init_def set_task_detail_def cache_set_task_detail_def cache_get_task_detail_def)
       (simp_all add: example_task_def example_world_def)
  have uid: "node_id (fst (run_action example_actuator example_task example_match
      example_history_world)) = 2"
    by (simp add: run_action_eq [OF ctx reg] Let_def counter)
  have mem: "task_id' example_task = 1" "entry' example_task = ''Entry''"
    by (simp_all add: example_task_def)
  show ?thesis
    using run_action_appends_history [OF tsk ctx reg, where A = example_actuator
        and w = example_history_world and R = example_recognizer and img = example_frame
        and list = "[]"]
    by (simp add: ctx tsk reg prior uid mem)
qed

text \<open>
  Claim C7, as amended. For a sequence of N \<open>run_action\<close> calls, on any executors, each
  with a bound context and a matched result, started with the global counter at c where
  c + N does not exceed the largest \<open>int64_t\<close>: the returned node ids are c + 1, ...,
  c + N in call order, the counter ends at c + N, and the ids, read as signed 64-bit
  values, are strictly increasing, pairwise distinct and all greater than c.
\<close>

theorem run_actions_node_ids_increasing:
  assumes "\<forall>(self, reco) \<in> set calls. context' self \<noteq> None \<and> box reco \<noteq> None"
    and "sint (s_global_node_id w) + int (length calls) < 2 ^ 63"
  shows "map node_id (fst (run_actions A calls w)) =
           map (\<lambda>k. s_global_node_id w + of_nat k) [1..<Suc (length calls)] \<and>
         s_global_node_id (snd (run_actions A calls w)) =
           s_global_node_id w + of_nat (length calls) \<and>
         sorted_wrt (\<lambda>a b. sint a < sint b) (map node_id (fst (run_actions A calls w))) \<and>
         distinct (map node_id (fst (run_actions A calls w))) \<and>
         (\<forall>uid \<in> set (map node_id (fst (run_actions A calls w))).
            sint (s_global_node_id w) < sint uid)"
proof -
  let ?c = "s_global_node_id w"
  let ?ids = "map (\<lambda>k. ?c + of_nat k) [1..<Suc (length calls)]"
  have val: "sint (?c + of_nat k) = sint ?c + int k" if "k \<le> length calls" for k
    using that assms(2) by (intro sint_add_of_nat) simp
  have "sorted_wrt (\<lambda>i j. sint (?c + of_nat i) < sint (?c + of_nat j)) [1..<Suc (length calls)]"
    by (rule sorted_wrt_mono_rel [where P = "(<)"]) (auto simp: val simp del: upt_Suc)
  then have incr: "sorted_wrt (\<lambda>a b. sint a < sint b) ?ids"
    by (simp add: sorted_wrt_map del: upt_Suc)
  from incr have dist: "distinct ?ids"
    by (rule sorted_wrt_irrefl_distinct) simp
  have above: "\<forall>uid \<in> set ?ids. sint ?c < sint uid"
    by (auto simp: val simp del: upt_Suc)
  from run_actions_node_ids [OF assms(1), of A w] incr dist above show ?thesis
    by (simp del: upt_Suc)
qed

text \<open>
  Three calls on two executors, one of them without a tasker, from counter 0.
\<close>

theorem run_actions_node_ids_increasing_witness:
  "context' example_task \<noteq> None \<and> context' example_detached_task \<noteq> None \<and>
   box example_match \<noteq> None \<and>
   sint (s_global_node_id example_world) + int (length [(example_task, example_match),
        (example_detached_task, example_match), (example_task, example_match)]) < 2 ^ 63 \<and>
   map node_id (fst (run_actions example_actuator [(example_task, example_match),
        (example_detached_task, example_match), (example_task, example_match)] example_world)) =
     [1, 2, 3]"
  using run_actions_node_ids_increasing [of "[(example_task, example_match),
        (example_detached_task, example_match), (example_task, example_match)]"
        example_world example_actuator]
  by (simp add: example_task_def example_detached_task_def example_match_def
      example_world_def)

text \<open>
  The claim as stated, for every N and every counter value, fails where the 64-bit
  counter wraps: from 2^63 - 2, two calls return 2^63 - 1 and then - 2^63.
\<close>

theorem run_actions_node_ids_wrap_around:
  "context' example_task \<noteq> None \<and> box example_match \<noteq> None \<and>
   sint (s_global_node_id (example_world\<lparr>s_global_node_id := 0x7FFFFFFFFFFFFFFE\<rparr>)) =
     9223372036854775806 \<and>
   map (sint \<circ> node_id) (fst (run_actions example_actuator
     [(example_task, example_match), (example_task, example_match)]
     (example_world\<lparr>s_global_node_id := 0x7FFFFFFFFFFFFFFE\<rparr>))) =
     [9223372036854775807, - 9223372036854775808] \<and>
   \<not> sorted_wrt (\<lambda>a b. sint a < sint b) (map node_id (fst (run_actions example_actuator
     [(example_task, example_match), (example_task, example_match)]
     (example_world\<lparr>s_global_node_id := 0x7FFFFFFFFFFFFFFE\<rparr>))))"
proof -
  have pre: "\<forall>(self, reco) \<in> set [(example_task, example_match), (example_task, example_match)].
      context' self \<noteq> None \<and> box reco \<noteq> None"
    by (simp add: example_task_def example_match_def)
  have ids: "map node_id (fst (run_actions example_actuator
     [(example_task, example_match), (example_task, example_match)]
     (example_world\<lparr>s_global_node_id := 0x7FFFFFFFFFFFFFFE\<rparr>))) =
     [0x7FFFFFFFFFFFFFFF, 0x8000000000000000]"
    using run_actions_node_ids [OF pre, of example_actuator
        "example_world\<lparr>s_global_node_id := 0x7FFFFFFFFFFFFFFE\<rparr>"]
    by (simp add: upt_conv_Cons)
  have wrapped: "map (sint \<circ> node_id) (fst (run_actions example_actuator
     [(example_task, example_match), (example_task, example_match)]
     (example_world\<lparr>s_global_node_id := 0x7FFFFFFFFFFFFFFE\<rparr>))) =
     [9223372036854775807, - 9223372036854775808]"
    unfolding map_map [symmetric] ids by simp
  have unsorted: "\<not> sorted_wrt (\<lambda>a b. sint a < sint b) (map node_id (fst (run_actions
     example_actuator [(example_task, example_match), (example_task, example_match)]
     (example_world\<lparr>s_global_node_id := 0x7FFFFFFFFFFFFFFE\<rparr>))))"
    unfolding ids by simp
  have "context' example_task \<noteq> None" "box example_match \<noteq> None"
    "sint (s_global_node_id (example_world\<lparr>s_global_node_id := 0x7FFFFFFFFFFFFFFE\<rparr>)) =
       9223372036854775806"
    by (simp_all add: example_task_def example_match_def)
  with wrapped unsorted show ?thesis
    by (simp only: simp_thms)
qed

text \<open>
  Claim C9. On an executor with a null tasker, \<open>run_action\<close> on a matched result
  with a bound context calls the actuator, increments the counter and returns the
  populated record; beyond that the world changes by the error line of
  \<open>set_node_detail\<close> only: no tasker changes, so nothing is stored and no event is
  delivered.
\<close>

theorem run_action_null_tasker:
  assumes "tasker' self = None" and "context' self = Some ctx" and "box reco = Some region"
  shows "run_action A self reco w =
           (\<lparr>node_id = s_global_node_id w + 1, node_name = reco_name reco,
             node_reco_id = reco_id reco,
             completed = A None ctx region (reco_id reco)
                           (get_pipeline_data ctx (reco_name reco))\<rparr>,
            w\<lparr>s_global_node_id := s_global_node_id w + 1,
               actuator_calls := actuator_calls w @
                 [(region, reco_id reco, get_pipeline_data ctx (reco_name reco))],
               error_log := error_log w @ [''tasker is null'']\<rparr>) \<and>
         taskers (snd (run_action A self reco w)) = taskers w"
  using assms(1)
  by (simp add: run_action_eq [OF assms(2,3)] Let_def)

text \<open>
  The example executor without its tasker.
\<close>

theorem run_action_null_tasker_witness:
  "tasker' example_detached_task = None \<and>
   context' example_detached_task = Some example_context \<and>
   box example_match = Some (10, 10, 5, 5) \<and>
   fst (run_action example_actuator example_detached_task example_match example_world) =
     \<lparr>node_id = 1, node_name = ''C'', node_reco_id = 7, completed = False\<rparr> \<and>
   map fst (actuator_calls (snd (run_action example_actuator example_detached_task
     example_match example_world))) = [(10, 10, 5, 5)] \<and>
   error_log (snd (run_action example_actuator example_detached_task example_match
     example_world)) = [''tasker is null''] \<and>
   notified (taskers (snd (run_action example_actuator example_detached_task example_match
     example_world)) 0) = [] \<and>
   cache_get_node_detail 1 (runtime_cache (taskers (snd (run_action example_actuator
     example_detached_task example_match example_world)) 0)) = None"
  using run_action_null_tasker [of example_detached_task example_context example_match
      "(10, 10, 5, 5)" example_actuator example_world]
  by (simp add: example_detached_task_def example_task_def example_match_def
      example_world_def example_actuator_def cache_get_node_detail_def)

text \<open>
  Claim C10. After a \<open>run_action\<close> that passes its guards on an executor with a
  tasker, the latest node id stored for the matched name is the node id just allocated,
  whatever the actuator answered.
\<close>

theorem run_action_sets_latest_node:
  assumes "tasker' self = Some p" and "context' self = Some ctx" and "box reco = Some region"
  shows "cache_get_latest_node (reco_name reco)
           (runtime_cache (taskers (snd (run_action A self reco w)) p)) =
           Some (node_id (fst (run_action A self reco w))) \<and>
         node_id (fst (run_action A self reco w)) = s_global_node_id w + 1 \<and>
         s_global_node_id (snd (run_action A self reco w)) = s_global_node_id w + 1 \<and>
         completed (fst (run_action A self reco w)) =
           A (tasker' self) ctx region (reco_id reco) (get_pipeline_data ctx (reco_name reco))"
  using assms(1)
  by (simp add: run_action_eq [OF assms(2,3)] Let_def cache_get_latest_node_def)

text \<open>
  A second action of the example executor, whose actuator reports failure: the latest
  node of C moves from 1 to 2.
\<close>

theorem run_action_sets_latest_node_witness:
  "tasker' example_task = Some 0 \<and> context' example_task = Some example_context \<and>
   box example_match = Some (10, 10, 5, 5) \<and>
   cache_get_latest_node ''C'' (runtime_cache (taskers example_history_world 0)) = Some 1 \<and>
   completed (fst (run_action example_actuator example_task example_match
     example_history_world)) = False \<and>
   cache_get_latest_node ''C'' (runtime_cache (taskers (snd (run_action example_actuator
     example_task example_match example_history_world)) 0)) = Some 2"
proof -
  have ctx: "context' example_task = Some example_context"
    and tsk: "tasker' example_task = Some 0"
    and reg: "box example_match = Some (10, 10, 5, 5)"
    and nm: "reco_name example_match = ''C''"
    by (simp_all add: example_task_def example_match_def)
  have prior: "cache_get_latest_node ''C'' (runtime_cache (taskers example_history_world 0)) =
      Some 1"
    and counter: "s_global_node_id example_history_world = 1"
    by (simp_all add: example_history_world_def run_action_eq [OF ctx reg] tsk nm Let_def
        init_def set_task_detail_def cache_get_latest_node_def)
       (simp_all add: example_world_def)
  show ?thesis
    using run_action_sets_latest_node [OF tsk ctx reg, of example_actuator
        example_history_world]
    by (simp add: ctx tsk reg nm prior counter example_actuator_def)
qed

end
